theory Spec2Isabelle
  imports Main
begin

section \<open>The host engine: execution contexts, responses, wrapped calls\<close>

text \<open>
  Instants and durations are counted in nanoseconds. \<^verbatim>\<open>time.Time.Sub\<close> saturates at the
  bounds of \<^verbatim>\<open>time.Duration\<close>, a signed 64-bit count.
\<close>

type_synonym Time = int
type_synonym Duration = int

definition minDuration :: Duration where
  "minDuration = - (2 ^ 63)"

definition maxDuration :: Duration where
  "maxDuration = 2 ^ 63 - 1"

definition Sub :: "Time \<Rightarrow> Time \<Rightarrow> Duration" where
  "Sub t u = (let d = t - u in
     if d > maxDuration then maxDuration
     else if d < minDuration then minDuration
     else d)"

record TraceTiming =
  Start :: Time
  End :: Time

text \<open>Of \<^verbatim>\<open>graphql.Stats\<close>, the two timings the collector reads.\<close>

record Stats =
  Parsing :: TraceTiming
  Validation :: TraceTiming

text \<open>
  \<^verbatim>\<open>ast.OperationDefinition\<close>: the field \<open>OperationKind\<close> is Go's field \<^verbatim>\<open>Operation\<close>, of the
  string type \<^verbatim>\<open>ast.Operation\<close>; \<^verbatim>\<open>string(ctx.Operation.Operation)\<close> reads it as it is.
\<close>

record OperationDefinition =
  OperationKind :: string
  Name :: string

text \<open>\<^verbatim>\<open>graphql.OperationContext\<close>; \<open>Operation\<close> is a pointer, \<open>None\<close> when nil.\<close>

record OperationContext =
  RawQuery :: string
  OperationName :: string
  Operation :: "OperationDefinition option"
  Stats :: Stats

text \<open>
  \<^verbatim>\<open>graphql.FieldContext\<close>, as far as the interceptors read it: \<open>FieldName\<close> is
  \<^verbatim>\<open>fc.Field.Name\<close>, \<open>PathString\<close> is what \<^verbatim>\<open>fc.Path().String()\<close> renders.
\<close>

record FieldContext =
  FieldName :: string
  PathString :: string
  IsMethod :: bool

text \<open>
  A \<^verbatim>\<open>context.Context\<close> as the host engine hands it to an interceptor: it carries the
  operation context and, during a field resolution, the field context (the operation
  interceptors never read that slot), and the name of the span \<^verbatim>\<open>trace.StartSpan\<close> put
  into it, if any. The host installs the contexts before it calls an interceptor, so the
  getters return them as they are.
\<close>

record Context =
  operationContext :: OperationContext
  fieldContext :: FieldContext
  currentSpan :: "string option"

definition GetOperationContext :: "Context \<Rightarrow> OperationContext" where
  "GetOperationContext ctx = operationContext ctx"

definition GetFieldContext :: "Context \<Rightarrow> FieldContext" where
  "GetFieldContext ctx = fieldContext ctx"

text \<open>
  A \<^verbatim>\<open>*graphql.Response\<close> is \<open>None\<close> when nil. Each entry of \<^verbatim>\<open>gqlerror.List\<close> is held as
  the text its \<^verbatim>\<open>Error()\<close> method renders; \<^verbatim>\<open>List.Error()\<close> writes every entry followed
  by a newline.
\<close>

type_synonym gqlerror = string

record Response =
  Data :: string
  Errors :: "gqlerror list"

definition List_Error :: "gqlerror list \<Rightarrow> string" where
  "List_Error errs = concat (map (\<lambda>e. e @ [CHR 0x0A]) errs)"

text \<open>
  The wrapped call either returns or panics. \<open>NilFunc\<close> is the runtime panic of calling a
  nil function value; \<open>Raised\<close> is a panic that comes out of the wrapped call.
\<close>

datatype PanicValue = NilFunc | Raised string

datatype 'a Outcome = Return 'a | Panic PanicValue

section \<open>The telemetry backend: spans, tags, measures\<close>

datatype SpanKind = SpanKindUnspecified | SpanKindServer | SpanKindClient

datatype Attribute =
  StringAttribute string string
| BoolAttribute string bool
| Int64Attribute string int

record Status =
  Code :: int
  Message :: string

definition StatusCodeOK :: int where
  "StatusCodeOK = 0"

definition StatusCodeUnknown :: int where
  "StatusCodeUnknown = 2"

datatype Key = MustNewKey string

definition TagHost :: Key where
  "TagHost = MustNewKey ''gql.host''"

definition TagOperation :: Key where
  "TagOperation = MustNewKey ''gql.operation''"

definition TagField :: Key where
  "TagField = MustNewKey ''gql.field''"

definition TagPath :: Key where
  "TagPath = MustNewKey ''gql.path''"

datatype Mutator = Upsert Key string

text \<open>
  The six measure variables of the package, and what each one's declaration passes to
  \<^verbatim>\<open>stats.Int64\<close> or \<^verbatim>\<open>stats.Float64\<close>.
\<close>

datatype Measure =
  ServerRequestCount
| ServerFieldCount
| ServerErrorCount
| ServerLatency
| ServerFieldLatency
| ServerParsing

datatype MeasureType = Int64 | Float64

record Declaration =
  measureType :: MeasureType
  measureName :: string
  description :: string
  unit :: string

definition UnitDimensionless :: string where
  "UnitDimensionless = ''1''"

definition UnitMilliseconds :: string where
  "UnitMilliseconds = ''ms''"

fun declared :: "Measure \<Rightarrow> Declaration" where
  "declared ServerRequestCount =
     \<lparr>measureType = Int64, measureName = ''gql/server/request_count'',
      description = ''Number of GraphQL requests started'', unit = UnitDimensionless\<rparr>"
| "declared ServerFieldCount =
     \<lparr>measureType = Int64, measureName = ''gql/server/field_count'',
      description = ''Number of GraphQL field resolutions, per field and query path'',
      unit = UnitDimensionless\<rparr>"
| "declared ServerErrorCount =
     \<lparr>measureType = Int64, measureName = ''gql/server/request_count'',
      description = ''Number of GraphQL requests started'', unit = UnitDimensionless\<rparr>"
| "declared ServerLatency =
     \<lparr>measureType = Float64, measureName = ''gql/server/latency'',
      description = ''Execution latency'', unit = UnitMilliseconds\<rparr>"
| "declared ServerFieldLatency =
     \<lparr>measureType = Float64, measureName = ''gql/server/field_latency'',
      description = ''Single field execution latency'', unit = UnitMilliseconds\<rparr>"
| "declared ServerParsing =
     \<lparr>measureType = Float64, measureName = ''gql/server/parsing_validation'',
      description = ''Parsing & validation latency'', unit = UnitMilliseconds\<rparr>"

text \<open>
  A measurement \<^verbatim>\<open>X.M(v)\<close>. A latency is
  \<^verbatim>\<open>float64(d)/float64(time.Millisecond)\<close> for a duration \<open>d\<close>; \<open>Milliseconds d\<close> stands for
  that quotient and keeps \<open>d\<close>.
\<close>

datatype Amount = Count int | Milliseconds Duration

datatype Measurement = M Measure Amount

text \<open>
  What one interceptor call does, in order: the calls it makes on its own span, the
  \<^verbatim>\<open>stats.RecordWithTags\<close> calls, and the call of the wrapped function with the context it
  is given.
\<close>

datatype Event =
  StartSpan string SpanKind
| AddAttributes "Attribute list"
| SetStatus Status
| EndSpan
| RecordWithTags "Mutator list" "Measurement list"
| Next Context

section \<open>Package metrics: the collector\<close>

record config =
  host :: string
  fieldsEnabled :: bool

record Collector =
  config :: config
  opTagger :: "(string \<Rightarrow> Mutator list) option"
  fieldTagger :: "(string \<Rightarrow> string \<Rightarrow> Mutator list) option"

text \<open>
  Modelled from the spec: \<^verbatim>\<open>defaultCollector\<close> and the default configuration are not in the
  sources. By the spec the tagging functions are derived at construction time and the
  field-tagging function is left unset when field metrics are disabled, so the default
  collector holds the default configuration (a parameter here) and no tagging function.
\<close>

definition defaultCollector :: "config \<Rightarrow> Collector" where
  "defaultCollector dflt = \<lparr>config = dflt, opTagger = None, fieldTagger = None\<rparr>"

text \<open>An \<^verbatim>\<open>Option\<close> updates the configuration it is applied to.\<close>

type_synonym Option = "config \<Rightarrow> config"

definition New :: "config \<Rightarrow> Option list \<Rightarrow> Collector" where
  "New dflt opts =
    (let m = defaultCollector dflt;
         c = fold (\<lambda>apply c. apply c) opts (config m);
         c = (if host c = '''' then c\<lparr>host := ''-''\<rparr> else c);
         m = m\<lparr>config := c\<rparr>;
         m = m\<lparr>opTagger := Some (\<lambda>opName.
               [Upsert TagHost (host (config m)), Upsert TagOperation opName])\<rparr>
     in if fieldsEnabled (config m)
        then m\<lparr>fieldTagger := Some (\<lambda>fieldName pth.
               [Upsert TagHost (host (config m)), Upsert TagField fieldName,
                Upsert TagPath pth])\<rparr>
        else m)"

definition operationName :: "OperationContext \<Rightarrow> string" where
  "operationName ctx =
    (let opName = '''';
         opName = (if Operation ctx \<noteq> None then Name (the (Operation ctx)) else opName);
         opName = (if opName = '''' \<and> Operation ctx \<noteq> None
                   then OperationKind (the (Operation ctx)) else opName);
         opName = (if opName = '''' then OperationName ctx else opName)
     in opName)"

text \<open>\<^verbatim>\<open>strings.HasPrefix\<close>.\<close>

definition HasPrefix :: "string \<Rightarrow> string \<Rightarrow> bool" where
  "HasPrefix s pre = (length s \<ge> length pre \<and> take (length pre) s = pre)"

definition fieldTags :: "FieldContext \<Rightarrow> string \<times> string" where
  "fieldTags ctx =
    (let pth = PathString ctx in
     if HasPrefix pth ''__schema'' then (''[introspection]'', ''__schema'')
     else (FieldName ctx, pth))"

text \<open>
  A deferred call runs when the function leaves, by return or by panic, after everything
  the body did; the outcome stays what the body made it.
\<close>

definition deferred :: "Event list \<Rightarrow> Event list \<times> 'a Outcome \<Rightarrow> Event list \<times> 'a Outcome" where
  "deferred ds body = (fst body @ ds, snd body)"

text \<open>
  \<open>startNow\<close> and \<open>endNow\<close> are the instants \<^verbatim>\<open>graphql.Now()\<close> gives at its first and second call.
  The deferred closure computes the tags, calls \<open>m.fieldTagger\<close> (a nil function value
  panics there, before anything is recorded, and that panic is the one that leaves the
  function) and records.
\<close>

definition Collector_InterceptField ::
  "Collector \<Rightarrow> Context \<Rightarrow> (Context \<Rightarrow> ('r \<times> 'e option) Outcome) \<Rightarrow> Time \<Rightarrow> Time
   \<Rightarrow> Event list \<times> ('r \<times> 'e option) Outcome" where
  "Collector_InterceptField m ctx next startNow endNow =
    (if \<not> fieldsEnabled (config m) then ([Next ctx], next ctx)
     else
       let fc = GetFieldContext ctx in
       if \<not> IsMethod fc then ([Next ctx], next ctx)
       else
         let start = startNow;
             body = ([Next ctx], next ctx);
             end = endNow;
             (fieldName, pth) = fieldTags fc
         in case fieldTagger m of
              None \<Rightarrow> (fst body, Panic NilFunc)
            | Some tagger \<Rightarrow>
                deferred
                  [RecordWithTags (tagger fieldName pth)
                     [M ServerFieldCount (Count 1),
                      M ServerFieldLatency (Milliseconds (Sub end start))]]
                  body)"

text \<open>
  \<open>now\<close> is the instant \<^verbatim>\<open>graphql.Now()\<close> gives after the wrapped call. Nothing is deferred
  here: a panic of the wrapped call leaves the function at once.
\<close>

definition Collector_InterceptResponse ::
  "Collector \<Rightarrow> Context \<Rightarrow> (Context \<Rightarrow> Response option Outcome) \<Rightarrow> Time
   \<Rightarrow> Event list \<times> Response option Outcome" where
  "Collector_InterceptResponse m ctx next now =
    (let rc = GetOperationContext ctx;
         opName = operationName rc
     in case next ctx of
          Panic p \<Rightarrow> ([Next ctx], Panic p)
        | Return resp \<Rightarrow>
            let end = now in
            (case opTagger m of
               None \<Rightarrow> ([Next ctx], Panic NilFunc)
             | Some tagger \<Rightarrow>
                 let unconditional =
                   [Next ctx,
                    RecordWithTags (tagger opName)
                      [M ServerRequestCount (Count 1),
                       M ServerParsing (Milliseconds
                          (Sub (End (Validation (Stats rc))) (Start (Parsing (Stats rc))))),
                       M ServerLatency (Milliseconds (Sub end (End (Validation (Stats rc)))))]]
                 in (case resp of
                       None \<Rightarrow> (unconditional, Return None)
                     | Some r \<Rightarrow>
                         if List_Error (Errors r) \<noteq> ''''
                         then (unconditional @ [RecordWithTags (tagger opName)
                                             [M ServerErrorCount (Count 1)]],
                               Return resp)
                         else (unconditional, Return resp))))"

section \<open>The naming rule of the spec\<close>

text \<open>
  The precedence of the spec, in its words: the candidates in order (the declared name and
  the operation type when an operation was parsed, then the raw operation name), the
  first one that is supplied, which is to say non-empty, wins, and the name is empty when
  none is.
\<close>

definition candidates :: "OperationContext \<Rightarrow> string list" where
  "candidates oc =
    (case Operation oc of None \<Rightarrow> [] | Some d \<Rightarrow> [Name d, OperationKind d])
    @ [OperationName oc]"

fun first_supplied :: "string list \<Rightarrow> string" where
  "first_supplied [] = ''''"
| "first_supplied (c # cs) = (if c \<noteq> '''' then c else first_supplied cs)"

definition resolved_name :: "OperationContext \<Rightarrow> string" where
  "resolved_name oc = first_supplied (candidates oc)"

section \<open>Package gqlopencensus: the tracer\<close>

text \<open>
  The tracer embeds its configuration; of it the interceptors read the only-methods flag
  and the two functions that derive the attributes of a span.
\<close>

record Tracer =
  onlyMethods :: bool
  fieldAttributes :: "FieldContext \<Rightarrow> Attribute list"
  operationAttributes :: "OperationContext \<Rightarrow> Attribute list"

text \<open>
  Modelled from the spec: the tracer package has an \<^verbatim>\<open>operationName\<close> of its own, which is
  not in the sources. By the spec the precedence is applied identically by both
  components.
\<close>

definition gqlopencensus_operationName :: "OperationContext \<Rightarrow> string" where
  "gqlopencensus_operationName oc = resolved_name oc"

text \<open>\<^verbatim>\<open>trace.StartSpan\<close> returns the span and a context that carries it.\<close>

definition WithSpan :: "Context \<Rightarrow> string \<Rightarrow> Context" where
  "WithSpan ctx name = ctx\<lparr>currentSpan := Some name\<rparr>"

definition Tracer_InterceptField ::
  "Tracer \<Rightarrow> Context \<Rightarrow> (Context \<Rightarrow> ('r \<times> 'e option) Outcome)
   \<Rightarrow> Event list \<times> ('r \<times> 'e option) Outcome" where
  "Tracer_InterceptField tr ctx next =
    (let fc = GetFieldContext ctx in
     if onlyMethods tr \<and> \<not> IsMethod fc then ([Next ctx], next ctx)
     else
       let name = PathString fc;
           ctx' = WithSpan ctx name
       in deferred [EndSpan]
            ([StartSpan name SpanKindServer, AddAttributes (fieldAttributes tr fc), Next ctx'],
             next ctx'))"

definition Tracer_InterceptResponse ::
  "Tracer \<Rightarrow> Context \<Rightarrow> (Context \<Rightarrow> Response option Outcome)
   \<Rightarrow> Event list \<times> Response option Outcome" where
  "Tracer_InterceptResponse tr ctx next =
    (let oc = GetOperationContext ctx;
         name = gqlopencensus_operationName oc;
         ctx' = WithSpan ctx name;
         called = [StartSpan name SpanKindServer, AddAttributes (operationAttributes tr oc),
                   Next ctx']
     in deferred [EndSpan]
          (case next ctx' of
             Panic p \<Rightarrow> (called, Panic p)
           | Return resp \<Rightarrow>
               (case resp of
                  None \<Rightarrow> (called, Return None)
                | Some r \<Rightarrow>
                    let errs = Errors r in
                    if length errs > 0
                    then (called @ [SetStatus \<lparr>Code = StatusCodeUnknown,
                                               Message = List_Error errs\<rparr>],
                          Return resp)
                    else (called, Return resp))))"

section \<open>Reading a trace\<close>

datatype Kind = Started | AttributesAdded | StatusSet | Ended | Recorded | Called

fun kind :: "Event \<Rightarrow> Kind" where
  "kind (StartSpan _ _) = Started"
| "kind (AddAttributes _) = AttributesAdded"
| "kind (SetStatus _) = StatusSet"
| "kind EndSpan = Ended"
| "kind (RecordWithTags _ _) = Recorded"
| "kind (Next _) = Called"

fun measurements :: "Event \<Rightarrow> Measurement list" where
  "measurements (RecordWithTags _ ms) = ms"
| "measurements _ = []"

fun measureOf :: "Measurement \<Rightarrow> Measure" where
  "measureOf (M x _) = x"

text \<open>The measures a trace records a measurement of, one entry for each measurement.\<close>

definition recorded :: "Event list \<Rightarrow> Measure list" where
  "recorded es = map measureOf (concat (map measurements es))"


section \<open>Sample inputs\<close>

text \<open>
  The operation context of the package's test (no parsed operation), a parsed anonymous
  query, a parsed named query, and an operation definition with neither name nor type.
\<close>

definition timing :: Stats where
  "timing = \<lparr>Parsing = \<lparr>Start = 100, End = 130\<rparr>, Validation = \<lparr>Start = 130, End = 150\<rparr>\<rparr>"

definition test_operation :: OperationContext where
  "test_operation =
    \<lparr>RawQuery = ''query{}'', OperationName = ''test'', Operation = None, Stats = timing\<rparr>"

definition anonymous_query :: OperationContext where
  "anonymous_query = test_operation\<lparr>Operation := Some \<lparr>OperationKind = ''query'', Name = ''''\<rparr>\<rparr>"

definition named_query :: OperationContext where
  "named_query = test_operation\<lparr>Operation := Some \<lparr>OperationKind = ''query'', Name = ''GetUser''\<rparr>\<rparr>"

definition blank_operation :: OperationContext where
  "blank_operation = test_operation\<lparr>Operation := Some \<lparr>OperationKind = '''', Name = ''''\<rparr>\<rparr>"

definition user_field :: FieldContext where
  "user_field = \<lparr>FieldName = ''user'', PathString = ''query/user'', IsMethod = True\<rparr>"

definition name_property :: FieldContext where
  "name_property = \<lparr>FieldName = ''name'', PathString = ''query/user/name'', IsMethod = False\<rparr>"

definition schema_types :: FieldContext where
  "schema_types = \<lparr>FieldName = ''types'', PathString = ''__schema.types[3]'', IsMethod = True\<rparr>"

definition in_field :: "FieldContext \<Rightarrow> Context" where
  "in_field fc = \<lparr>operationContext = test_operation, fieldContext = fc, currentSpan = None\<rparr>"

text \<open>
  A default configuration with field metrics on and no host, the option that switches
  field metrics off, a tracer in only-method mode, and wrapped calls: a resolver that
  succeeds, one that returns an error, and a response handler that answers a given response.
\<close>

definition fields_on :: config where
  "fields_on = \<lparr>host = '''', fieldsEnabled = True\<rparr>"

definition disableFields :: Option where
  "disableFields c = c\<lparr>fieldsEnabled := False\<rparr>"

definition only_methods_tracer :: Tracer where
  "only_methods_tracer =
    \<lparr>onlyMethods = True,
     fieldAttributes = (\<lambda>fc. [StringAttribute ''resolver.field'' (FieldName fc)]),
     operationAttributes = (\<lambda>oc. [StringAttribute ''request.query'' (RawQuery oc)])\<rparr>"

definition resolved :: "Context \<Rightarrow> (string \<times> string option) Outcome" where
  "resolved ctx = Return (''Ada'', None)"

definition failing :: "Context \<Rightarrow> (string \<times> string option) Outcome" where
  "failing ctx = Return ('''', Some ''not found'')"

definition answers :: "Response option \<Rightarrow> Context \<Rightarrow> Response option Outcome" where
  "answers resp ctx = Return resp"

definition error_response :: Response where
  "error_response = \<lparr>Data = ''null'', Errors = [''input: boom'', ''input: bang'']\<rparr>"


section \<open>Operation naming\<close>

text \<open>
  C1. The name \<open>operationName\<close> resolves is the first supplied candidate of the precedence:
  the declared name of the parsed operation when it is not empty; otherwise its operation
  type; otherwise, when no operation was parsed, the raw operation name of the request,
  which is the empty string when none was supplied. The operation type of an operation
  the parser produced is never the empty string; an operation definition built with
  neither a name nor a type is treated like no operation and gets the raw name.
\<close>

theorem operationName_precedence:
  "operationName oc = resolved_name oc
   \<and> (\<forall>d. Operation oc = Some d \<and> Name d \<noteq> '''' \<longrightarrow> operationName oc = Name d)
   \<and> (\<forall>d. Operation oc = Some d \<and> Name d = '''' \<and> OperationKind d \<noteq> ''''
          \<longrightarrow> operationName oc = OperationKind d)
   \<and> (Operation oc = None \<or> (\<exists>d. Operation oc = Some d \<and> Name d = '''' \<and> OperationKind d = '''')
          \<longrightarrow> operationName oc = OperationName oc)"
  by (cases "Operation oc")
     (auto simp: operationName_def resolved_name_def candidates_def Let_def)

theorem operationName_precedence_witness:
  "operationName named_query = ''GetUser''
   \<and> operationName anonymous_query = ''query''
   \<and> operationName test_operation = ''test''
   \<and> operationName blank_operation = ''test''"
  using operationName_precedence [of named_query, THEN conjunct2]
    operationName_precedence [of anonymous_query, THEN conjunct2]
    operationName_precedence [of test_operation, THEN conjunct2]
    operationName_precedence [of blank_operation, THEN conjunct2]
  by (simp add: named_query_def anonymous_query_def blank_operation_def test_operation_def)

lemma operationName_test_operation: "operationName test_operation = ''test''"
  by (simp add: operationName_def test_operation_def)

section \<open>Field tags\<close>

lemma HasPrefix_append: "HasPrefix s pre \<longleftrightarrow> (\<exists>suffix. s = pre @ suffix)"
proof
  assume "HasPrefix s pre"
  then have "s = pre @ drop (length pre) s"
    by (metis HasPrefix_def append_take_drop_id)
  then show "\<exists>suffix. s = pre @ suffix" ..
next
  assume "\<exists>suffix. s = pre @ suffix"
  then show "HasPrefix s pre" by (auto simp: HasPrefix_def)
qed

text \<open>
  C3. When the path string of a field context begins with \<open>__schema\<close>, whatever follows, the
  field-name tag is \<open>[introspection]\<close> and the path tag is \<open>__schema\<close>; for every other field
  context the tags are the field's name and its whole path string.
\<close>

theorem fieldTags_introspection:
  "(PathString fc = ''__schema'' @ suffix \<longrightarrow> fieldTags fc = (''[introspection]'', ''__schema''))
   \<and> ((\<nexists>rest. PathString fc = ''__schema'' @ rest)
        \<longrightarrow> fieldTags fc = (FieldName fc, PathString fc))"
  using HasPrefix_append [of "PathString fc" "''__schema''"]
  by (auto simp: fieldTags_def Let_def)

theorem fieldTags_introspection_witness:
  "PathString schema_types = ''__schema'' @ ''.types[3]''
   \<and> fieldTags schema_types = (''[introspection]'', ''__schema'')
   \<and> (\<nexists>rest. PathString user_field = ''__schema'' @ rest)
   \<and> fieldTags user_field = (''user'', ''query/user'')"
  using fieldTags_introspection [of schema_types "''.types[3]''"]
    fieldTags_introspection [of user_field]
  by (simp add: schema_types_def user_field_def)

section \<open>Measure declarations\<close>

text \<open>
  C8, as the spec states it, fails: the three declarations do not share one name, since the
  field-count measure is declared under a name of its own.
\<close>

theorem shared_name_counterexample:
  "\<not> (measureName (declared ServerFieldCount) = ''gql/server/request_count''
      \<and> measureName (declared ServerErrorCount) = ''gql/server/request_count''
      \<and> measureName (declared ServerRequestCount) = ''gql/server/request_count'')"
  by simp

text \<open>
  C8, amended. The error-count declaration has the name \<open>gql/server/request_count\<close> of the
  request-count declaration (and its description and unit); the field-count declaration
  has the name \<open>gql/server/field_count\<close>. No other two measures share a name.
\<close>

theorem error_count_shares_request_count_name:
  "declared ServerErrorCount = declared ServerRequestCount
   \<and> measureName (declared ServerErrorCount) = ''gql/server/request_count''
   \<and> measureName (declared ServerFieldCount) = ''gql/server/field_count''
   \<and> (measureName (declared x) = measureName (declared y)
        \<longleftrightarrow> x = y \<or> x = ServerRequestCount \<and> y = ServerErrorCount
              \<or> x = ServerErrorCount \<and> y = ServerRequestCount)"
  by (cases x; cases y; simp)

section \<open>Construction of the collector\<close>

lemma New_host: "host (config (New dflt opts)) \<noteq> ''''"
  by (simp add: New_def defaultCollector_def Let_def)

lemma New_opTagger:
  "opTagger (New dflt opts) =
     Some (\<lambda>opName. [Upsert TagHost (host (config (New dflt opts))), Upsert TagOperation opName])"
  by (simp add: New_def defaultCollector_def Let_def)

lemma New_fieldTagger:
  "fieldTagger (New dflt opts) =
     (if fieldsEnabled (config (New dflt opts))
      then Some (\<lambda>fieldName pth. [Upsert TagHost (host (config (New dflt opts))),
                                   Upsert TagField fieldName, Upsert TagPath pth])
      else None)"
  by (simp add: New_def defaultCollector_def Let_def)

lemma New_fields_on: "config (New fields_on []) = \<lparr>host = ''-'', fieldsEnabled = True\<rparr>"
  by (simp add: New_def defaultCollector_def fields_on_def)

lemma New_fields_off:
  "config (New fields_on [disableFields]) = \<lparr>host = ''-'', fieldsEnabled = False\<rparr>"
  by (simp add: New_def defaultCollector_def fields_on_def disableFields_def)

text \<open>
  C10. For a collector built by \<open>New\<close>, whatever the default configuration and the options:
  the operation tagger is set and returns, for every operation name, the two mutators host
  and operation in that order; when field metrics are enabled the field tagger is set and
  returns, for every field name and path, the three mutators host, field and path in that
  order; and the host value is never the empty string.
\<close>

theorem New_taggers:
  "(\<exists>f. opTagger (New dflt opts) = Some f
        \<and> (\<forall>opName. f opName = [Upsert TagHost (host (config (New dflt opts))),
                                 Upsert TagOperation opName]
                     \<and> length (f opName) = 2))
   \<and> (fieldsEnabled (config (New dflt opts)) \<longrightarrow>
        (\<exists>g. fieldTagger (New dflt opts) = Some g
           \<and> (\<forall>fieldName pth.
                 g fieldName pth = [Upsert TagHost (host (config (New dflt opts))),
                                    Upsert TagField fieldName, Upsert TagPath pth]
                 \<and> length (g fieldName pth) = 3)))
   \<and> host (config (New dflt opts)) \<noteq> ''''"
  by (simp add: New_opTagger New_fieldTagger New_host)

theorem New_taggers_witness:
  "fieldsEnabled (config (New fields_on []))
   \<and> host (config (New fields_on [])) = ''-''
   \<and> (\<exists>f g. opTagger (New fields_on []) = Some f \<and> fieldTagger (New fields_on []) = Some g
          \<and> f ''test'' = [Upsert TagHost ''-'', Upsert TagOperation ''test'']
          \<and> g ''aField'' ''q/path'' =
              [Upsert TagHost ''-'', Upsert TagField ''aField'', Upsert TagPath ''q/path''])"
  using New_taggers [of fields_on "[]"]
  by (auto simp: New_fields_on)

section \<open>Field interception\<close>

lemma Tracer_InterceptField_skip:
  "onlyMethods tr \<Longrightarrow> \<not> IsMethod (GetFieldContext ctx)
   \<Longrightarrow> Tracer_InterceptField tr ctx next = ([Next ctx], next ctx)"
  by (simp add: Tracer_InterceptField_def)


lemma Collector_InterceptField_skip:
  "\<not> fieldsEnabled (config m) \<or> \<not> IsMethod (GetFieldContext ctx)
   \<Longrightarrow> Collector_InterceptField m ctx next startNow endNow = ([Next ctx], next ctx)"
  by (auto simp: Collector_InterceptField_def Let_def)

lemma Collector_InterceptField_record:
  "fieldsEnabled (config m) \<Longrightarrow> IsMethod (GetFieldContext ctx) \<Longrightarrow> fieldTagger m = Some tagger
   \<Longrightarrow> Collector_InterceptField m ctx next startNow endNow =
       ([Next ctx,
         RecordWithTags (tagger (fst (fieldTags (GetFieldContext ctx)))
                                (snd (fieldTags (GetFieldContext ctx))))
           [M ServerFieldCount (Count 1),
            M ServerFieldLatency (Milliseconds (Sub endNow startNow))]],
        next ctx)"
  by (simp add: Collector_InterceptField_def Let_def deferred_def split: prod.splits)

text \<open>
  The branch the model has for a collector that was not built by \<open>New\<close>: field metrics
  enabled, no field tagger, a method-backed field. The deferred closure panics and nothing
  is recorded.
\<close>

lemma Collector_InterceptField_nil:
  "fieldsEnabled (config m) \<Longrightarrow> IsMethod (GetFieldContext ctx) \<Longrightarrow> fieldTagger m = None
   \<Longrightarrow> Collector_InterceptField m ctx next startNow endNow = ([Next ctx], Panic NilFunc)"
  by (simp add: Collector_InterceptField_def Let_def deferred_def split: prod.splits)

text \<open>
  C4. When the tracer is in only-method mode and the field is not method-backed, the field
  interception does nothing but call the wrapped function with the context it was given:
  it starts no span, records no measurement, and returns the outcome of the wrapped call,
  result and error, as it is. The collector does the same for every field that is not
  method-backed.
\<close>

theorem only_method_passthrough:
  "(onlyMethods tr \<and> \<not> IsMethod (GetFieldContext ctx) \<longrightarrow>
      fst (Tracer_InterceptField tr ctx next) = [Next ctx]
      \<and> Started \<notin> set (map kind (fst (Tracer_InterceptField tr ctx next)))
      \<and> recorded (fst (Tracer_InterceptField tr ctx next)) = []
      \<and> snd (Tracer_InterceptField tr ctx next) = next ctx)
   \<and> (\<not> IsMethod (GetFieldContext ctx) \<longrightarrow>
      fst (Collector_InterceptField m ctx next startNow endNow) = [Next ctx]
      \<and> Started \<notin> set (map kind (fst (Collector_InterceptField m ctx next startNow endNow)))
      \<and> recorded (fst (Collector_InterceptField m ctx next startNow endNow)) = []
      \<and> snd (Collector_InterceptField m ctx next startNow endNow) = next ctx)"
  by (simp add: Tracer_InterceptField_skip Collector_InterceptField_skip recorded_def)

theorem only_method_passthrough_witness:
  "onlyMethods only_methods_tracer \<and> \<not> IsMethod (GetFieldContext (in_field name_property))
   \<and> Tracer_InterceptField only_methods_tracer (in_field name_property) resolved
       = ([Next (in_field name_property)], Return (''Ada'', None))
   \<and> Collector_InterceptField (New fields_on []) (in_field name_property) failing 10 25
       = ([Next (in_field name_property)], Return ('''', Some ''not found''))"
  using only_method_passthrough [where tr = only_methods_tracer
      and ctx = "in_field name_property" and ?next = resolved]
    only_method_passthrough [where ctx = "in_field name_property" and m = "New fields_on []"
      and ?next = failing and startNow = 10 and endNow = 25]
  by (simp add: only_methods_tracer_def in_field_def name_property_def GetFieldContext_def
      resolved_def failing_def prod_eq_iff)

text \<open>
  C9. For a collector built by \<open>New\<close>: when field metrics are disabled the field tagger is
  unset and the field interception passes through; when they are enabled the field tagger
  is set, and a method-backed field is recorded with the tags it returns. So the call of
  an unset field tagger is never reached, and the outcome is always that of the wrapped
  call.
\<close>

theorem fieldTagger_nil_never_called:
  "(\<not> fieldsEnabled (config (New dflt opts)) \<longrightarrow>
      fieldTagger (New dflt opts) = None
      \<and> Collector_InterceptField (New dflt opts) ctx next startNow endNow = ([Next ctx], next ctx))
   \<and> (fieldsEnabled (config (New dflt opts)) \<longrightarrow>
      (\<exists>tagger. fieldTagger (New dflt opts) = Some tagger
         \<and> (IsMethod (GetFieldContext ctx) \<longrightarrow>
              Collector_InterceptField (New dflt opts) ctx next startNow endNow =
                ([Next ctx,
                  RecordWithTags (tagger (fst (fieldTags (GetFieldContext ctx)))
                                         (snd (fieldTags (GetFieldContext ctx))))
                    [M ServerFieldCount (Count 1),
                     M ServerFieldLatency (Milliseconds (Sub endNow startNow))]],
                 next ctx))))
   \<and> snd (Collector_InterceptField (New dflt opts) ctx next startNow endNow) = next ctx"
proof (cases "fieldsEnabled (config (New dflt opts))")
  case False
  then show ?thesis
    by (simp add: New_fieldTagger Collector_InterceptField_skip)
next
  case enabled: True
  then obtain tagger where tagger: "fieldTagger (New dflt opts) = Some tagger"
    by (simp add: New_fieldTagger)
  show ?thesis
  proof (cases "IsMethod (GetFieldContext ctx)")
    case True
    with enabled tagger show ?thesis
      by (simp add: Collector_InterceptField_record)
  next
    case False
    with enabled tagger show ?thesis
      by (simp add: Collector_InterceptField_skip)
  qed
qed

theorem fieldTagger_nil_never_called_witness:
  "\<not> fieldsEnabled (config (New fields_on [disableFields]))
   \<and> fieldTagger (New fields_on [disableFields]) = None
   \<and> Collector_InterceptField (New fields_on [disableFields]) (in_field user_field) resolved 10 25
       = ([Next (in_field user_field)], Return (''Ada'', None))
   \<and> fieldsEnabled (config (New fields_on [])) \<and> IsMethod (GetFieldContext (in_field user_field))
   \<and> Collector_InterceptField (New fields_on []) (in_field user_field) resolved 10 25
       = ([Next (in_field user_field),
           RecordWithTags [Upsert TagHost ''-'', Upsert TagField ''user'',
                           Upsert TagPath ''query/user'']
             [M ServerFieldCount (Count 1), M ServerFieldLatency (Milliseconds 15)]],
          Return (''Ada'', None))"
  using fieldTagger_nil_never_called [where dflt = fields_on and opts = "[disableFields]"
      and ctx = "in_field user_field" and ?next = resolved and startNow = 10 and endNow = 25]
    fieldTagger_nil_never_called [where dflt = fields_on and opts = "[]"
      and ctx = "in_field user_field" and ?next = resolved and startNow = 10 and endNow = 25]
    New_fieldTagger [of fields_on "[]"]
  by (auto simp: New_fields_on New_fields_off resolved_def in_field_def user_field_def
      GetFieldContext_def fieldTags_def HasPrefix_def Sub_def minDuration_def maxDuration_def)

section \<open>Operation interception by the tracer\<close>


lemma Tracer_InterceptResponse_nil:
  "next (WithSpan ctx (gqlopencensus_operationName (GetOperationContext ctx))) = Return None
   \<Longrightarrow> Tracer_InterceptResponse tr ctx next =
       ([StartSpan (gqlopencensus_operationName (GetOperationContext ctx)) SpanKindServer,
         AddAttributes (operationAttributes tr (GetOperationContext ctx)),
         Next (WithSpan ctx (gqlopencensus_operationName (GetOperationContext ctx))),
         EndSpan],
        Return None)"
  by (simp add: Tracer_InterceptResponse_def Let_def deferred_def)


lemma Tracer_InterceptResponse_errors:
  "next (WithSpan ctx (gqlopencensus_operationName (GetOperationContext ctx))) = Return (Some r)
   \<Longrightarrow> Errors r \<noteq> []
   \<Longrightarrow> Tracer_InterceptResponse tr ctx next =
       ([StartSpan (gqlopencensus_operationName (GetOperationContext ctx)) SpanKindServer,
         AddAttributes (operationAttributes tr (GetOperationContext ctx)),
         Next (WithSpan ctx (gqlopencensus_operationName (GetOperationContext ctx))),
         SetStatus \<lparr>Code = StatusCodeUnknown, Message = List_Error (Errors r)\<rparr>,
         EndSpan],
        Return (Some r))"
  by (simp add: Tracer_InterceptResponse_def Let_def deferred_def)

text \<open>
  C7. When the wrapped call returns a response that carries one or more errors, the tracer
  sets the status of its span to the code \<open>StatusCodeUnknown\<close>, which is not the OK code,
  with the message \<^verbatim>\<open>List.Error()\<close> renders (every error followed by a newline, in order);
  the status is set after the wrapped call and before the span is ended, and the response
  is returned as it is.
\<close>

theorem error_status_set_before_end:
  "next (WithSpan ctx (gqlopencensus_operationName (GetOperationContext ctx))) = Return (Some r)
   \<and> Errors r \<noteq> [] \<longrightarrow>
     Tracer_InterceptResponse tr ctx next =
       ([StartSpan (gqlopencensus_operationName (GetOperationContext ctx)) SpanKindServer,
         AddAttributes (operationAttributes tr (GetOperationContext ctx)),
         Next (WithSpan ctx (gqlopencensus_operationName (GetOperationContext ctx))),
         SetStatus \<lparr>Code = StatusCodeUnknown,
                    Message = concat (map (\<lambda>e. e @ [CHR 0x0A]) (Errors r))\<rparr>,
         EndSpan],
        Return (Some r))
     \<and> StatusCodeUnknown \<noteq> StatusCodeOK"
  by (simp add: Tracer_InterceptResponse_errors List_Error_def StatusCodeUnknown_def
      StatusCodeOK_def)

theorem error_status_set_before_end_witness:
  "answers (Some error_response) (WithSpan (in_field user_field) ''test'')
     = Return (Some error_response)
   \<and> Errors error_response \<noteq> []
   \<and> Tracer_InterceptResponse only_methods_tracer (in_field user_field)
        (answers (Some error_response)) =
       ([StartSpan ''test'' SpanKindServer,
         AddAttributes [StringAttribute ''request.query'' ''query{}''],
         Next (WithSpan (in_field user_field) ''test''),
         SetStatus \<lparr>Code = 2,
                    Message = ''input: boom'' @ [CHR 0x0A] @ ''input: bang'' @ [CHR 0x0A]\<rparr>,
         EndSpan],
        Return (Some error_response))"
  using error_status_set_before_end [where ?next = "answers (Some error_response)"
      and ctx = "in_field user_field" and tr = only_methods_tracer and r = error_response]
  by (simp add: answers_def error_response_def in_field_def only_methods_tracer_def
      gqlopencensus_operationName_def resolved_name_def candidates_def
      GetOperationContext_def test_operation_def StatusCodeUnknown_def)

section \<open>Operation interception by the collector\<close>

lemma List_Error_empty: "List_Error errs = '''' \<longleftrightarrow> errs = []"
  by (cases errs) (simp_all add: List_Error_def)

lemma Collector_InterceptResponse_panic:
  "next ctx = Panic p \<Longrightarrow> Collector_InterceptResponse m ctx next now = ([Next ctx], Panic p)"
  by (simp add: Collector_InterceptResponse_def Let_def)

lemma Collector_InterceptResponse_nil:
  "next ctx = Return None \<Longrightarrow> opTagger m = Some tagger
   \<Longrightarrow> Collector_InterceptResponse m ctx next now =
       ([Next ctx,
         RecordWithTags (tagger (operationName (GetOperationContext ctx)))
           [M ServerRequestCount (Count 1),
            M ServerParsing (Milliseconds
               (Sub (End (Validation (Stats (GetOperationContext ctx))))
                    (Start (Parsing (Stats (GetOperationContext ctx)))))),
            M ServerLatency (Milliseconds
               (Sub now (End (Validation (Stats (GetOperationContext ctx))))))]],
        Return None)"
  by (simp add: Collector_InterceptResponse_def Let_def)


lemma Collector_InterceptResponse_errors:
  "next ctx = Return (Some r) \<Longrightarrow> Errors r \<noteq> [] \<Longrightarrow> opTagger m = Some tagger
   \<Longrightarrow> Collector_InterceptResponse m ctx next now =
       ([Next ctx,
         RecordWithTags (tagger (operationName (GetOperationContext ctx)))
           [M ServerRequestCount (Count 1),
            M ServerParsing (Milliseconds
               (Sub (End (Validation (Stats (GetOperationContext ctx))))
                    (Start (Parsing (Stats (GetOperationContext ctx)))))),
            M ServerLatency (Milliseconds
               (Sub now (End (Validation (Stats (GetOperationContext ctx))))))],
         RecordWithTags (tagger (operationName (GetOperationContext ctx)))
           [M ServerErrorCount (Count 1)]],
        Return (Some r))"
  by (simp add: Collector_InterceptResponse_def Let_def List_Error_empty)

text \<open>
  C5. When the wrapped call returns a response that carries one or more errors, a collector
  built by \<open>New\<close> records, after the three operation measurements, one error-count
  measurement of 1, tagged by the host and the resolved operation name, and no other; the
  response is returned as it is.
\<close>

theorem error_count_recorded_once:
  "next ctx = Return (Some r) \<and> Errors r \<noteq> [] \<longrightarrow>
     (let m = New dflt opts;
          rc = GetOperationContext ctx;
          tags = [Upsert TagHost (host (config m)), Upsert TagOperation (operationName rc)]
      in Collector_InterceptResponse m ctx next now =
           ([Next ctx,
             RecordWithTags tags
               [M ServerRequestCount (Count 1),
                M ServerParsing (Milliseconds
                   (Sub (End (Validation (Stats rc))) (Start (Parsing (Stats rc))))),
                M ServerLatency (Milliseconds (Sub now (End (Validation (Stats rc)))))],
             RecordWithTags tags [M ServerErrorCount (Count 1)]],
            Return (Some r))
         \<and> count_list (recorded (fst (Collector_InterceptResponse m ctx next now)))
              ServerErrorCount = 1)"
  by (simp add: Let_def Collector_InterceptResponse_errors [OF _ _ New_opTagger] recorded_def)

theorem error_count_recorded_once_witness:
  "answers (Some error_response) (in_field user_field) = Return (Some error_response)
   \<and> Errors error_response \<noteq> []
   \<and> Collector_InterceptResponse (New fields_on []) (in_field user_field)
         (answers (Some error_response)) 400 =
       ([Next (in_field user_field),
         RecordWithTags [Upsert TagHost ''-'', Upsert TagOperation ''test'']
           [M ServerRequestCount (Count 1), M ServerParsing (Milliseconds 50),
            M ServerLatency (Milliseconds 250)],
         RecordWithTags [Upsert TagHost ''-'', Upsert TagOperation ''test'']
           [M ServerErrorCount (Count 1)]],
        Return (Some error_response))"
  using error_count_recorded_once [where ?next = "answers (Some error_response)"
      and ctx = "in_field user_field" and r = error_response and dflt = fields_on
      and opts = "[]" and now = 400]
    operationName_test_operation
  by (simp add: Let_def answers_def error_response_def New_fields_on in_field_def
      GetOperationContext_def test_operation_def timing_def Sub_def minDuration_def
      maxDuration_def)

section \<open>A nil response\<close>

text \<open>
  C6. When the wrapped call returns a nil response, the tracer does nothing more than end
  its span and returns nil; a collector built by \<open>New\<close> has recorded the three operation
  measurements (a request count of 1, the parsing and validation latency, the execution
  latency), records no error-count measurement, and returns nil.
\<close>

theorem nil_response_no_processing:
  "(next (WithSpan ctx (gqlopencensus_operationName (GetOperationContext ctx))) = Return None \<longrightarrow>
      Tracer_InterceptResponse tr ctx next =
        ([StartSpan (gqlopencensus_operationName (GetOperationContext ctx)) SpanKindServer,
          AddAttributes (operationAttributes tr (GetOperationContext ctx)),
          Next (WithSpan ctx (gqlopencensus_operationName (GetOperationContext ctx))),
          EndSpan],
         Return None))
   \<and> (next ctx = Return None \<longrightarrow>
      (let m = New dflt opts;
           rc = GetOperationContext ctx;
           tags = [Upsert TagHost (host (config m)), Upsert TagOperation (operationName rc)]
       in Collector_InterceptResponse m ctx next now =
            ([Next ctx,
              RecordWithTags tags
                [M ServerRequestCount (Count 1),
                 M ServerParsing (Milliseconds
                    (Sub (End (Validation (Stats rc))) (Start (Parsing (Stats rc))))),
                 M ServerLatency (Milliseconds (Sub now (End (Validation (Stats rc)))))]],
             Return None)
          \<and> count_list (recorded (fst (Collector_InterceptResponse m ctx next now)))
               ServerErrorCount = 0))"
  by (simp add: Let_def Tracer_InterceptResponse_nil
      Collector_InterceptResponse_nil [OF _ New_opTagger] recorded_def)

theorem nil_response_no_processing_witness:
  "answers None (WithSpan (in_field user_field) ''test'') = Return None
   \<and> answers None (in_field user_field) = Return None
   \<and> Tracer_InterceptResponse only_methods_tracer (in_field user_field) (answers None) =
       ([StartSpan ''test'' SpanKindServer,
         AddAttributes [StringAttribute ''request.query'' ''query{}''],
         Next (WithSpan (in_field user_field) ''test''), EndSpan],
        Return None)
   \<and> Collector_InterceptResponse (New fields_on []) (in_field user_field) (answers None) 400 =
       ([Next (in_field user_field),
         RecordWithTags [Upsert TagHost ''-'', Upsert TagOperation ''test'']
           [M ServerRequestCount (Count 1), M ServerParsing (Milliseconds 50),
            M ServerLatency (Milliseconds 250)]],
        Return None)"
  using nil_response_no_processing [where ?next = "answers None"
      and ctx = "in_field user_field" and tr = only_methods_tracer and dflt = fields_on
      and opts = "[]" and now = 400]
    operationName_test_operation
  by (simp add: Let_def answers_def New_fields_on in_field_def only_methods_tracer_def
      gqlopencensus_operationName_def resolved_name_def candidates_def
      GetOperationContext_def test_operation_def timing_def Sub_def minDuration_def
      maxDuration_def)

section \<open>Once per call\<close>




end
